theory Spec2Isabelle
  imports Main "HOL-Library.Sublist"
begin

section \<open>Data model (actionunit/models.py)\<close>

text \<open>
  A \<^verbatim>\<open>datetime.date\<close> is represented by its proleptic Gregorian ordinal
  (\<^verbatim>\<open>date.toordinal()\<close>), an \<^typ>\<open>int\<close>: comparison of dates is comparison of
  ordinals. The dates are the ordinals from 1 (\<^verbatim>\<open>date.min\<close>) to 3652059
  (\<^verbatim>\<open>date.max\<close>, the last day of the year 9999).

  A church is identified by its primary key, a \<^typ>\<open>nat\<close>.
\<close>

text \<open>
  \<^verbatim>\<open>class Subscription(models.Model)\<close>. The \<^verbatim>\<open>church\<close> column is a one-to-one
  key, so the table is a map from the church's key to the row; an absent key is the
  \<^verbatim>\<open>Subscription.DoesNotExist\<close> of a lookup.
\<close>

record subscription =
  plan :: string
  status :: string
  trial_end_date :: int
  current_period_end :: int
  grace_period_end :: "int option"

type_synonym subscriptions = "nat \<rightharpoonup> subscription"

definition PLAN_CHOICES :: "string list" where
  "PLAN_CHOICES = [''free_trial'', ''monthly'', ''quarterly'', ''annual'']"

definition STATUS_CHOICES :: "string list" where
  "STATUS_CHOICES = [''trialing'', ''active'', ''past_due'', ''canceled'', ''unpaid'']"

text \<open>
  \<^verbatim>\<open>class CustomUser(AbstractUser)\<close>, the columns the modelled code reads. The
  \<^verbatim>\<open>church\<close> foreign key is nullable (\<open>None\<close>: a system administrator).
\<close>

record CustomUser =
  pk :: nat
  church :: "nat option"
  role :: string
  is_active :: bool

text \<open>Exceptions that the modelled code raises or lets through.\<close>

datatype exn =
  AttributeError
  | ValidationError string
  | IntegrityError
  | OverflowError

text \<open>
  \<^verbatim>\<open>d + timedelta(days=n)\<close>: the date \<open>n\<close> days after \<open>d\<close>, and
  \<^verbatim>\<open>OverflowError\<close> when that day is outside the range of dates.
\<close>

definition date_add :: "int \<Rightarrow> int \<Rightarrow> exn + int" where
  "date_add d n = (if 1 \<le> d + n \<and> d + n \<le> 3652059 then Inr (d + n) else Inl OverflowError)"

section \<open>The subscription middleware (actionunit/middleware.py)\<close>

text \<open>
  What \<^verbatim>\<open>request.user\<close> can be: Django's \<^verbatim>\<open>AnonymousUser\<close>, which is not
  authenticated and has no attribute \<^verbatim>\<open>church\<close>, or a row of the user table, which
  is authenticated and has the attribute (its value may be \<^verbatim>\<open>None\<close>). A request
  without the attribute \<^verbatim>\<open>user\<close> has \<open>user = None\<close>.
\<close>

datatype request_user = AnonymousUser | Authenticated CustomUser

fun is_authenticated :: "request_user \<Rightarrow> bool" where
  "is_authenticated AnonymousUser = False"
| "is_authenticated (Authenticated u) = True"

fun hasattr_church :: "request_user \<Rightarrow> bool" where
  "hasattr_church AnonymousUser = False"
| "hasattr_church (Authenticated u) = True"

record request =
  path :: string
  req_method :: string
  user :: "request_user option"

text \<open>\<^verbatim>\<open>JsonResponse({'error': .., 'message': .., 'code': ..}, status=..)\<close>.\<close>

record JsonResponse =
  error :: string
  message :: string
  code :: string
  status_code :: nat

text \<open>\<^verbatim>\<open>s.startswith(p)\<close>.\<close>

definition startswith :: "string \<Rightarrow> string \<Rightarrow> bool" where
  "startswith s p = prefix p s"

text \<open>
  The body of the \<^verbatim>\<open>try\<close> block, for a subscription that was found: the four
  tests in the order of the source, and the default denial that follows the block.
\<close>

definition check_subscription :: "int \<Rightarrow> subscription \<Rightarrow> JsonResponse option" where
  "check_subscription today sub =
    (if status sub \<in> set [''canceled'', ''unpaid''] then
       Some \<lparr>error = ''Subscription terminated'',
             message = ''Your subscription has been terminated. Please contact support.'',
             code = ''SUBSCRIPTION_TERMINATED'',
             status_code = 402\<rparr>
     else if status sub = ''past_due'' then
       Some \<lparr>error = ''Payment past due'',
             message = ''Your payment is past due. Please update your payment method.'',
             code = ''PAYMENT_PAST_DUE'',
             status_code = 402\<rparr>
     else if current_period_end sub < today then
       Some \<lparr>error = ''Subscription period ended'',
             message = ''Your subscription period has ended. Please renew to continue.'',
             code = ''SUBSCRIPTION_EXPIRED'',
             status_code = 402\<rparr>
     else if status sub \<in> set [''active'', ''trialing''] then None
     else
       Some \<lparr>error = ''Subscription access denied'',
             message = ''Unable to verify subscription status.'',
             code = ''SUBSCRIPTION_ACCESS_DENIED'',
             status_code = 402\<rparr>)"

text \<open>
  \<^verbatim>\<open>SubscriptionMiddleware.process_view\<close>. The arguments \<^verbatim>\<open>view_func\<close>,
  \<^verbatim>\<open>view_args\<close> and \<^verbatim>\<open>view_kwargs\<close> are not read by the source and are left
  out; the subscription table and the current date, which the source reads from the
  database and the clock, are arguments. \<open>Inr None\<close> is the return value
  \<^verbatim>\<open>None\<close> (the request goes on to the view), \<open>Inr (Some r)\<close> the response \<open>r\<close>
  that blocks it, \<open>Inl e\<close> an exception that leaves the function.

  \<^verbatim>\<open>request.user.church.subscription\<close> on a user whose church is \<^verbatim>\<open>None\<close> raises
  \<^verbatim>\<open>AttributeError\<close>, which \<^verbatim>\<open>except Subscription.DoesNotExist\<close> does not catch.
\<close>

definition process_view :: "subscriptions \<Rightarrow> int \<Rightarrow> request \<Rightarrow> exn + JsonResponse option" where
  "process_view subs today req =
    (if startswith (path req) ''/api/auth/'' then Inr None
     else if startswith (path req) ''/static/'' \<or> startswith (path req) ''/admin/'' then Inr None
     else if req_method req = ''GET'' then Inr None
     else
       (case user req of
          None \<Rightarrow> Inr None
        | Some ru \<Rightarrow>
            if \<not> (is_authenticated ru \<and> hasattr_church ru) then Inr None
            else
              (case ru of
                 AnonymousUser \<Rightarrow> Inr None
               | Authenticated u \<Rightarrow>
                   (case church u of
                      None \<Rightarrow> Inl AttributeError
                    | Some c \<Rightarrow>
                        (case subs c of
                           None \<Rightarrow> Inr None
                         | Some sub \<Rightarrow> Inr (check_subscription today sub))))))"

section \<open>Deleting a user (actionunit/models.py)\<close>

text \<open>
  The user table is a list of rows. The query
  \<^verbatim>\<open>CustomUser.objects.filter(church=self.church, role='superintendent', is_active=True).exclude(id=self.id)\<close>
  selects rows of the table; \<open>self\<close> is the instance in memory.
\<close>

definition other_superintendents :: "CustomUser \<Rightarrow> CustomUser list \<Rightarrow> CustomUser list" where
  "other_superintendents self users =
    filter (\<lambda>u. pk u \<noteq> pk self)
      (filter (\<lambda>u. church u = church self \<and> role u = ''superintendent'' \<and> is_active u = True) users)"

text \<open>\<^verbatim>\<open>super().delete()\<close>: the row with the instance's key leaves the table.\<close>

definition super_delete :: "CustomUser \<Rightarrow> CustomUser list \<Rightarrow> CustomUser list" where
  "super_delete self users = filter (\<lambda>u. pk u \<noteq> pk self) users"

text \<open>
  \<^verbatim>\<open>CustomUser.delete\<close>. The result is the exception raised, if any, and the table
  after the call; an exception leaves the table as it was.
\<close>

definition delete :: "CustomUser \<Rightarrow> CustomUser list \<Rightarrow> exn option \<times> CustomUser list" where
  "delete self users =
    (if role self = ''superintendent'' then
       (if \<not> (other_superintendents self users \<noteq> []) then
          (Some (ValidationError ''Cannot delete the last superintendent.''), users)
        else (None, super_delete self users))
     else (None, super_delete self users))"

section \<open>Subscription endpoints (actionunit/views.py, actionunit/serializers.py)\<close>

text \<open>
  The views are modelled below their decorators: the body runs for a POST request of
  an authenticated user, \<^verbatim>\<open>request.user\<close>. \<^verbatim>\<open>request.data\<close> is a dictionary from keys
  to strings (\<^verbatim>\<open>request.data.get(k)\<close> is \<open>data k\<close>, \<open>None\<close> for an absent key). A
  view returns its response, or the exception that leaves it, and the subscription
  table after the call.

  A serialized subscription (\<^verbatim>\<open>SubscriptionSerializer(subscription).data\<close>) is
  represented by the row it was made from.
\<close>

datatype body =
  ErrorBody string
  | SerializerErrors
  | SubscriptionData subscription
  | PaymentInitiated int string nat
  | PaymentVerified subscription

datatype response = Response body nat

type_synonym view_result = "(exn + response) \<times> subscriptions"

text \<open>
  \<^verbatim>\<open>Subscription.objects.get(church=request.user.church)\<close>; \<open>None\<close> is
  \<^verbatim>\<open>Subscription.DoesNotExist\<close>. No row has a null church, so a user without a
  church finds none.
\<close>

definition objects_get :: "subscriptions \<Rightarrow> nat option \<Rightarrow> (nat \<times> subscription) option" where
  "objects_get db ch =
    (case ch of
       None \<Rightarrow> None
     | Some c \<Rightarrow> (case db c of None \<Rightarrow> None | Some sub \<Rightarrow> Some (c, sub)))"

text \<open>Values of the dictionary handed to a serializer.\<close>

datatype val = VPk nat | VStr string | VDate int

text \<open>
  \<^verbatim>\<open>class SubscriptionCreateSerializer(serializers.ModelSerializer)\<close> with
  \<^verbatim>\<open>fields = ['plan', 'trial_end_date', 'current_period_end']\<close>. A model serializer
  reads from its input the keys of its declared fields only. \<^verbatim>\<open>plan\<close> has a default
  in the model, so it may be absent, and must be one of the plan choices; the two dates
  are required. The view passes date objects; parsing of date strings is not modelled.
\<close>

definition SubscriptionCreateSerializer_fields :: "string list" where
  "SubscriptionCreateSerializer_fields = [''plan'', ''trial_end_date'', ''current_period_end'']"

fun is_date :: "val option \<Rightarrow> bool" where
  "is_date (Some (VDate d)) = True"
| "is_date _ = False"

definition is_valid :: "(string \<times> val) list \<Rightarrow> bool" where
  "is_valid data =
    ((case map_of data ''plan'' of
        None \<Rightarrow> True
      | Some (VStr p) \<Rightarrow> p \<in> set PLAN_CHOICES
      | Some _ \<Rightarrow> False)
     \<and> is_date (map_of data ''trial_end_date'')
     \<and> is_date (map_of data ''current_period_end''))"

definition validated_data :: "(string \<times> val) list \<Rightarrow> (string \<times> val) list" where
  "validated_data data = filter (\<lambda>(k, v). k \<in> set SubscriptionCreateSerializer_fields) data"

text \<open>
  \<^verbatim>\<open>Subscription.objects.create(**kwargs)\<close>: the row is built from the keyword
  arguments and the model's defaults (\<^verbatim>\<open>plan='free_trial'\<close>, \<^verbatim>\<open>status='trialing'\<close>,
  \<^verbatim>\<open>grace_period_end\<close> null) and inserted. The columns \<^verbatim>\<open>church\<close>,
  \<^verbatim>\<open>trial_end_date\<close> and \<^verbatim>\<open>current_period_end\<close> are not nullable and
  \<^verbatim>\<open>church\<close> is unique: the database refuses the insertion with an
  \<^verbatim>\<open>IntegrityError\<close> otherwise.
\<close>

definition objects_create ::
    "subscriptions \<Rightarrow> (string \<times> val) list \<Rightarrow> exn + (subscription \<times> subscriptions)" where
  "objects_create db kwargs =
    (case (map_of kwargs ''church'', map_of kwargs ''trial_end_date'',
           map_of kwargs ''current_period_end'') of
       (Some (VPk c), Some (VDate t), Some (VDate e)) \<Rightarrow>
         (if db c \<noteq> None then Inl IntegrityError
          else
            (let row = \<lparr>plan = (case map_of kwargs ''plan'' of Some (VStr p) \<Rightarrow> p | _ \<Rightarrow> ''free_trial''),
                        status = (case map_of kwargs ''status'' of Some (VStr s) \<Rightarrow> s | _ \<Rightarrow> ''trialing''),
                        trial_end_date = t,
                        current_period_end = e,
                        grace_period_end = None\<rparr>
             in Inr (row, db(c \<mapsto> row))))
     | _ \<Rightarrow> Inl IntegrityError)"

text \<open>\<^verbatim>\<open>serializer.save()\<close>: creates the row from the validated data.\<close>

definition serializer_save ::
    "subscriptions \<Rightarrow> (string \<times> val) list \<Rightarrow> exn + (subscription \<times> subscriptions)" where
  "serializer_save db data = objects_create db (validated_data data)"

text \<open>
  \<^verbatim>\<open>create_subscription\<close>. The end of the trial is computed first, and
  \<^verbatim>\<open>request.user.church.id\<close> raises \<^verbatim>\<open>AttributeError\<close> for a user without a
  church.
\<close>

definition create_subscription :: "subscriptions \<Rightarrow> int \<Rightarrow> CustomUser \<Rightarrow> view_result" where
  "create_subscription db today u =
    (case objects_get db (church u) of
       Some found \<Rightarrow>
         (Inr (Response (ErrorBody ''Subscription already exists for this church'') 400), db)
     | None \<Rightarrow>
         (case date_add today 60 of
            Inl e \<Rightarrow> (Inl e, db)
          | Inr trial_end \<Rightarrow>
              (let current_period_end' = trial_end
               in case church u of
                    None \<Rightarrow> (Inl AttributeError, db)
                  | Some church_id \<Rightarrow>
                      (let subscription_data =
                             [(''church'', VPk church_id),
                              (''plan'', VStr ''free_trial''),
                              (''status'', VStr ''trialing''),
                              (''trial_end_date'', VDate trial_end),
                              (''current_period_end'', VDate current_period_end')]
                       in if is_valid subscription_data then
                            (case serializer_save db subscription_data of
                               Inl e \<Rightarrow> (Inl e, db)
                             | Inr (sub, db') \<Rightarrow> (Inr (Response (SubscriptionData sub) 201), db'))
                          else (Inr (Response SerializerErrors 400), db)))))"


text \<open>
  \<^verbatim>\<open>verify_payment\<close>. The transaction id is read and not used. The end of the
  period is computed before the row is changed, so an \<^verbatim>\<open>OverflowError\<close> there
  leaves the row as it was. \<^verbatim>\<open>subscription.save()\<close>
  writes the row back; the \<^verbatim>\<open>plan\<close> column is not nullable, so saving with an
  absent plan raises \<^verbatim>\<open>IntegrityError\<close>. The limit on the column's length, which
  only some databases enforce, is not modelled.
\<close>

definition verify_payment ::
    "subscriptions \<Rightarrow> int \<Rightarrow> CustomUser \<Rightarrow> (string \<rightharpoonup> string) \<Rightarrow> view_result" where
  "verify_payment db today u data =
    (let transaction_id = data ''transaction_id'';
         plan' = data ''plan''
     in case objects_get db (church u) of
          None \<Rightarrow> (Inr (Response (ErrorBody ''Subscription not found'') 404), db)
        | Some (c, sub) \<Rightarrow>
            (case (if plan' = Some ''monthly'' then date_add today 30
                   else if plan' = Some ''quarterly'' then date_add today 90
                   else date_add today 365) of
               Inl e \<Rightarrow> (Inl e, db)
             | Inr period_end \<Rightarrow>
                 (case plan' of
                    None \<Rightarrow> (Inl IntegrityError, db)
                  | Some p \<Rightarrow>
                      (let sub' = sub\<lparr>plan := p, status := ''active'', current_period_end := period_end\<rparr>
                       in (Inr (Response (PaymentVerified sub') 200), db(c \<mapsto> sub'))))))"

section \<open>Auxiliary predicates and example values\<close>

text \<open>
  A request that none of the early returns lets through: its path is under none of the
  three prefixes and its method is not GET.
\<close>

definition reaches_check :: "request \<Rightarrow> bool" where
  "reaches_check req =
    (\<not> startswith (path req) ''/api/auth/'' \<and> \<not> startswith (path req) ''/static/''
     \<and> \<not> startswith (path req) ''/admin/'' \<and> req_method req \<noteq> ''GET'')"

text \<open>The request is made by an authenticated user of church \<open>c\<close>.\<close>

definition user_of_church :: "request \<Rightarrow> nat \<Rightarrow> bool" where
  "user_of_church req c = (case user req of Some (Authenticated u) \<Rightarrow> church u = Some c | _ \<Rightarrow> False)"

text \<open>Example values: a teacher of church 1, a POST of theirs, and a table with one row.\<close>

definition example_user :: CustomUser where
  "example_user = \<lparr>pk = 7, church = Some 1, role = ''teacher'', is_active = True\<rparr>"

definition example_post :: request where
  "example_post = \<lparr>path = ''/api/classes/'', req_method = ''POST'', user = Some (Authenticated example_user)\<rparr>"

definition example_subs :: "string \<Rightarrow> int \<Rightarrow> subscriptions" where
  "example_subs st period_end =
    [1 \<mapsto> \<lparr>plan = ''monthly'', status = st, trial_end_date = 50,
            current_period_end = period_end, grace_period_end = None\<rparr>]"

definition example_register :: request where
  "example_register =
    \<lparr>path = ''/api/church/register/'', req_method = ''POST'', user = Some (Authenticated example_user)\<rparr>"

definition example_super :: "nat \<Rightarrow> nat \<Rightarrow> bool \<Rightarrow> CustomUser" where
  "example_super k c a = \<lparr>pk = k, church = Some c, role = ''superintendent'', is_active = a\<rparr>"

definition example_row :: subscription where
  "example_row = \<lparr>plan = ''free_trial'', status = ''trialing'', trial_end_date = 160,
                  current_period_end = 160, grace_period_end = None\<rparr>"

section \<open>Properties of the subscription middleware\<close>

lemma process_view_checked:
  assumes "reaches_check req" and "user_of_church req c"
  shows "process_view subs today req =
    (case subs c of None \<Rightarrow> Inr None | Some sub \<Rightarrow> Inr (check_subscription today sub))"
  using assms
  by (auto simp: reaches_check_def user_of_church_def process_view_def
      split: option.splits request_user.splits)

subsection \<open>Decisions by subscription state\<close>

text \<open>
  C1. A request that is not a GET, whose path is under none of \<^verbatim>\<open>/api/auth/\<close>,
  \<^verbatim>\<open>/static/\<close> and \<^verbatim>\<open>/admin/\<close>, made by an authenticated user with a church whose
  subscription has status \<^verbatim>\<open>canceled\<close> or \<^verbatim>\<open>unpaid\<close>, is answered with status 402
  and code \<^verbatim>\<open>SUBSCRIPTION_TERMINATED\<close>, whatever \<^verbatim>\<open>current_period_end\<close> and the
  current date are.
\<close>

theorem terminated_denied:
  assumes "req_method req \<noteq> ''GET''"
    and "\<not> startswith (path req) ''/api/auth/''"
    and "\<not> startswith (path req) ''/static/''"
    and "\<not> startswith (path req) ''/admin/''"
    and "user req = Some (Authenticated u)" and "church u = Some c"
    and "subs c = Some sub"
    and "status sub = ''canceled'' \<or> status sub = ''unpaid''"
  shows "\<exists>resp. process_view subs today req = Inr (Some resp)
           \<and> status_code resp = 402 \<and> code resp = ''SUBSCRIPTION_TERMINATED''"
proof -
  have "reaches_check req" using assms(1-4) by (simp add: reaches_check_def)
  moreover have "user_of_church req c" using assms(5,6) by (simp add: user_of_church_def)
  ultimately have "process_view subs today req = Inr (check_subscription today sub)"
    using assms(7) by (simp add: process_view_checked)
  then show ?thesis using assms(8) by (auto simp: check_subscription_def)
qed

theorem terminated_denied_witness:
  "\<exists>resp. process_view (example_subs ''canceled'' 200) 100 example_post = Inr (Some resp)
     \<and> status_code resp = 402 \<and> code resp = ''SUBSCRIPTION_TERMINATED''"
  using terminated_denied [of example_post example_user 1 "example_subs ''canceled'' 200" _ 100]
  by (simp add: startswith_def example_post_def example_user_def example_subs_def)

text \<open>
  C2. A request that is not a GET and whose path is under none of the three
  bypassed prefixes, of an authenticated user whose church's subscription has status
  \<^verbatim>\<open>past_due\<close> is answered with status 402 and code \<^verbatim>\<open>PAYMENT_PAST_DUE\<close>, for every
  \<^verbatim>\<open>current_period_end\<close> and every current date.
\<close>

theorem past_due_denied:
  assumes "req_method req \<noteq> ''GET''"
    and "\<not> startswith (path req) ''/api/auth/''"
    and "\<not> startswith (path req) ''/static/''"
    and "\<not> startswith (path req) ''/admin/''"
    and "user req = Some (Authenticated u)" and "church u = Some c"
    and "subs c = Some sub"
    and "status sub = ''past_due''"
  shows "\<exists>resp. process_view subs today req = Inr (Some resp)
           \<and> status_code resp = 402 \<and> code resp = ''PAYMENT_PAST_DUE''"
proof -
  from assms(1-4) have g: "reaches_check req" by (simp add: reaches_check_def)
  from assms(5,6) have "user_of_church req c" by (simp add: user_of_church_def)
  with g assms(7) have "process_view subs today req = Inr (check_subscription today sub)"
    by (simp add: process_view_checked)
  moreover have "check_subscription today sub =
      Some \<lparr>error = ''Payment past due'',
            message = ''Your payment is past due. Please update your payment method.'',
            code = ''PAYMENT_PAST_DUE'', status_code = 402\<rparr>"
    using assms(8) by (simp add: check_subscription_def)
  ultimately show ?thesis by simp
qed

theorem past_due_denied_witness:
  "(\<exists>resp. process_view (example_subs ''past_due'' 200) 100 example_post = Inr (Some resp)
      \<and> status_code resp = 402 \<and> code resp = ''PAYMENT_PAST_DUE'')
   \<and> (\<exists>resp. process_view (example_subs ''past_due'' 50) 100 example_post = Inr (Some resp)
      \<and> status_code resp = 402 \<and> code resp = ''PAYMENT_PAST_DUE'')"
  using past_due_denied [of example_post example_user 1 "example_subs ''past_due'' 200" _ 100]
    past_due_denied [of example_post example_user 1 "example_subs ''past_due'' 50" _ 100]
  by (simp add: startswith_def example_post_def example_user_def example_subs_def)

text \<open>
  C3. A request that is not a GET and whose path is under none of the three
  bypassed prefixes, of an authenticated user whose church's subscription has status
  \<^verbatim>\<open>active\<close> or \<^verbatim>\<open>trialing\<close> and a \<^verbatim>\<open>current_period_end\<close> strictly before today is
  answered with status 402 and code \<^verbatim>\<open>SUBSCRIPTION_EXPIRED\<close>. The order of the tests:
  with the period ended, the statuses \<^verbatim>\<open>canceled\<close> and \<^verbatim>\<open>unpaid\<close> still give
  \<^verbatim>\<open>SUBSCRIPTION_TERMINATED\<close> and \<^verbatim>\<open>past_due\<close> still gives
  \<^verbatim>\<open>PAYMENT_PAST_DUE\<close>, and every other status gives \<^verbatim>\<open>SUBSCRIPTION_EXPIRED\<close>,
  so the period test comes after those two and before the acceptance of
  \<^verbatim>\<open>active\<close> and \<^verbatim>\<open>trialing\<close>.
\<close>

theorem expired_denied:
  assumes "req_method req \<noteq> ''GET''"
    and "\<not> startswith (path req) ''/api/auth/''"
    and "\<not> startswith (path req) ''/static/''"
    and "\<not> startswith (path req) ''/admin/''"
    and "user req = Some (Authenticated u)" and "church u = Some c"
    and "subs c = Some sub"
    and "current_period_end sub < today"
  shows "\<exists>resp. process_view subs today req = Inr (Some resp) \<and> status_code resp = 402
           \<and> code resp =
               (if status sub = ''canceled'' \<or> status sub = ''unpaid'' then ''SUBSCRIPTION_TERMINATED''
                else if status sub = ''past_due'' then ''PAYMENT_PAST_DUE''
                else ''SUBSCRIPTION_EXPIRED'')
           \<and> (status sub = ''active'' \<or> status sub = ''trialing''
                 \<longrightarrow> code resp = ''SUBSCRIPTION_EXPIRED'')"
proof -
  from assms(1-4) have g: "reaches_check req" by (simp add: reaches_check_def)
  from assms(5,6) have "user_of_church req c" by (simp add: user_of_church_def)
  with g assms(7) have pv: "process_view subs today req = Inr (check_subscription today sub)"
    by (simp add: process_view_checked)
  consider (terminated) "status sub = ''canceled'' \<or> status sub = ''unpaid''"
    | (pastdue) "status sub = ''past_due''"
    | (rest) "status sub \<noteq> ''canceled''" "status sub \<noteq> ''unpaid''" "status sub \<noteq> ''past_due''"
    by blast
  then show ?thesis
  proof cases
    case terminated
    then show ?thesis using pv by (auto simp: check_subscription_def)
  next
    case pastdue
    then show ?thesis using pv by (simp add: check_subscription_def)
  next
    case rest
    then show ?thesis using pv assms(8) by (simp add: check_subscription_def)
  qed
qed

theorem expired_denied_witness:
  "(\<exists>resp. process_view (example_subs ''active'' 99) 100 example_post = Inr (Some resp)
      \<and> status_code resp = 402 \<and> code resp = ''SUBSCRIPTION_EXPIRED'')
   \<and> (\<exists>resp. process_view (example_subs ''trialing'' 99) 100 example_post = Inr (Some resp)
      \<and> status_code resp = 402 \<and> code resp = ''SUBSCRIPTION_EXPIRED'')"
  using expired_denied [of example_post example_user 1 "example_subs ''active'' 99" _ 100]
    expired_denied [of example_post example_user 1 "example_subs ''trialing'' 99" _ 100]
  by (simp add: startswith_def example_post_def example_user_def example_subs_def)

text \<open>
  C4. A request that is not a GET and whose path is under none of the three
  bypassed prefixes, of an authenticated user whose church's subscription has status
  \<^verbatim>\<open>active\<close> or \<^verbatim>\<open>trialing\<close> and a \<^verbatim>\<open>current_period_end\<close> of today or later is
  allowed: \<^verbatim>\<open>process_view\<close> returns \<^verbatim>\<open>None\<close>.
\<close>

theorem active_allowed:
  assumes "req_method req \<noteq> ''GET''"
    and "\<not> startswith (path req) ''/api/auth/''"
    and "\<not> startswith (path req) ''/static/''"
    and "\<not> startswith (path req) ''/admin/''"
    and "user req = Some (Authenticated u)" and "church u = Some c"
    and "subs c = Some sub"
    and "status sub = ''active'' \<or> status sub = ''trialing''"
    and "today \<le> current_period_end sub"
  shows "process_view subs today req = Inr None"
proof -
  from assms(1-4) have g: "reaches_check req" by (simp add: reaches_check_def)
  from assms(5,6) have "user_of_church req c" by (simp add: user_of_church_def)
  with g assms(7) have "process_view subs today req = Inr (check_subscription today sub)"
    by (simp add: process_view_checked)
  moreover have "check_subscription today sub = None"
    using assms(8,9) by (auto simp: check_subscription_def)
  ultimately show ?thesis by simp
qed

theorem active_allowed_witness:
  "process_view (example_subs ''trialing'' 110) 100 example_post = Inr None
   \<and> process_view (example_subs ''active'' 100) 100 example_post = Inr None"
  using active_allowed [of example_post example_user 1 "example_subs ''trialing'' 110" _ 100]
    active_allowed [of example_post example_user 1 "example_subs ''active'' 100" _ 100]
  by (simp add: startswith_def example_post_def example_user_def example_subs_def)

text \<open>
  C5. Every request, GET or not and on any path, of an authenticated user whose church
  has no subscription row is allowed: \<^verbatim>\<open>process_view\<close> returns \<^verbatim>\<open>None\<close>.
\<close>

theorem no_subscription_allowed:
  assumes "user req = Some (Authenticated u)" and "church u = Some c"
    and "subs c = None"
  shows "process_view subs today req = Inr None"
  using assms by (simp add: process_view_def)

theorem no_subscription_allowed_witness:
  "process_view Map.empty 100 example_post = Inr None
   \<and> process_view Map.empty 100 (example_post\<lparr>req_method := ''GET''\<rparr>) = Inr None"
  using no_subscription_allowed [of example_post example_user 1 Map.empty 100]
    no_subscription_allowed [of "example_post\<lparr>req_method := ''GET''\<rparr>" example_user 1 Map.empty 100]
  by (simp add: example_post_def example_user_def)

subsection \<open>Paths that bypass the subscription check\<close>

text \<open>
  C6, as stated, fails: a POST to \<^verbatim>\<open>/api/church/register/\<close> by an authenticated user
  whose church's subscription is canceled is answered with 402.
\<close>

theorem register_not_bypassed:
  "process_view (example_subs ''canceled'' 200) 100 example_register =
     Inr (Some \<lparr>error = ''Subscription terminated'',
                 message = ''Your subscription has been terminated. Please contact support.'',
                 code = ''SUBSCRIPTION_TERMINATED'',
                 status_code = 402\<rparr>)"
  by (simp add: process_view_def check_subscription_def startswith_def
      example_register_def example_user_def example_subs_def)

text \<open>
  C6, amended. A request whose path is under \<^verbatim>\<open>/api/auth/\<close> bypasses the subscription check:
  \<^verbatim>\<open>process_view\<close> returns \<^verbatim>\<open>None\<close> for every method, user, subscription table and
  date. The path \<^verbatim>\<open>/api/church/register/\<close> has no bypass of its own: there
  \<^verbatim>\<open>process_view\<close> returns \<^verbatim>\<open>None\<close> for every subscription table when the request
  is a GET or has no authenticated user, and a request of another method by an
  authenticated user of a church with a subscription is decided by that subscription.
\<close>

theorem auth_paths_bypass:
  "(startswith (path req) ''/api/auth/'' \<longrightarrow> process_view subs today req = Inr None)
   \<and> (path req = ''/api/church/register/''
        \<and> (req_method req = ''GET'' \<or> user req = None \<or> user req = Some AnonymousUser)
      \<longrightarrow> process_view subs today req = Inr None)
   \<and> (path req = ''/api/church/register/'' \<and> req_method req \<noteq> ''GET''
        \<and> user req = Some (Authenticated u) \<and> church u = Some c \<and> subs c = Some sub
      \<longrightarrow> process_view subs today req = Inr (check_subscription today sub))"
proof (intro conjI impI)
  assume "startswith (path req) ''/api/auth/''"
  then show "process_view subs today req = Inr None"
    by (simp add: process_view_def)
next
  assume a: "path req = ''/api/church/register/''
        \<and> (req_method req = ''GET'' \<or> user req = None \<or> user req = Some AnonymousUser)"
  then show "process_view subs today req = Inr None"
    by (auto simp: process_view_def)
next
  assume a: "path req = ''/api/church/register/'' \<and> req_method req \<noteq> ''GET''
        \<and> user req = Some (Authenticated u) \<and> church u = Some c \<and> subs c = Some sub"
  then have "reaches_check req" by (simp add: reaches_check_def startswith_def)
  moreover from a have "user_of_church req c" by (simp add: user_of_church_def)
  ultimately show "process_view subs today req = Inr (check_subscription today sub)"
    using a by (simp add: process_view_checked)
qed

theorem auth_paths_bypass_witness:
  "process_view (example_subs ''canceled'' 50) 100 (example_post\<lparr>path := ''/api/auth/login/''\<rparr>) = Inr None
   \<and> process_view (example_subs ''canceled'' 50) 100 (example_register\<lparr>user := Some AnonymousUser\<rparr>) = Inr None
   \<and> process_view (example_subs ''active'' 150) 100 example_register = Inr None"
  using auth_paths_bypass [of "example_post\<lparr>path := ''/api/auth/login/''\<rparr>" "example_subs ''canceled'' 50" 100]
    auth_paths_bypass [of "example_register\<lparr>user := Some AnonymousUser\<rparr>" "example_subs ''canceled'' 50" 100]
    auth_paths_bypass [of example_register "example_subs ''active'' 150" 100 example_user 1
      "\<lparr>plan = ''monthly'', status = ''active'', trial_end_date = 50,
            current_period_end = 150, grace_period_end = None\<rparr>"]
  by (simp add: startswith_def example_post_def example_register_def example_user_def
      example_subs_def check_subscription_def)

subsection \<open>The default denial\<close>

lemma check_subscription_default:
  "(check_subscription today sub = Some resp \<and> code resp = ''SUBSCRIPTION_ACCESS_DENIED'') =
   (status sub \<notin> set STATUS_CHOICES \<and> today \<le> current_period_end sub
    \<and> resp = \<lparr>error = ''Subscription access denied'',
               message = ''Unable to verify subscription status.'',
               code = ''SUBSCRIPTION_ACCESS_DENIED'',
               status_code = 402\<rparr>)"
  by (auto simp: check_subscription_def STATUS_CHOICES_def)

lemma process_view_denial:
  "process_view subs today req = Inr (Some resp) \<longleftrightarrow>
     reaches_check req \<and> (\<exists>u c sub. user req = Some (Authenticated u) \<and> church u = Some c
        \<and> subs c = Some sub \<and> check_subscription today sub = Some resp)"
  by (auto simp: process_view_def reaches_check_def split: option.splits request_user.splits)

text \<open>
  C9. When every row of the subscription table has one of the five declared statuses,
  \<^verbatim>\<open>process_view\<close> never returns the response with code
  \<^verbatim>\<open>SUBSCRIPTION_ACCESS_DENIED\<close>, for any request and date. It returns that response
  exactly for a request that passes the early returns, from an authenticated user whose
  church's subscription has a status outside the declared ones and a
  \<^verbatim>\<open>current_period_end\<close> that is not before today.
\<close>

theorem default_deny_unreachable:
  "((\<forall>c sub. subs c = Some sub \<longrightarrow> status sub \<in> set STATUS_CHOICES)
      \<longrightarrow> \<not> (\<exists>resp. process_view subs today req = Inr (Some resp)
                  \<and> code resp = ''SUBSCRIPTION_ACCESS_DENIED''))
   \<and> ((\<exists>resp. process_view subs today req = Inr (Some resp)
          \<and> code resp = ''SUBSCRIPTION_ACCESS_DENIED'')
      \<longleftrightarrow> reaches_check req
          \<and> (\<exists>u c sub. user req = Some (Authenticated u) \<and> church u = Some c
                \<and> subs c = Some sub \<and> status sub \<notin> set STATUS_CHOICES
                \<and> today \<le> current_period_end sub))"
proof -
  have eq: "(\<exists>resp. process_view subs today req = Inr (Some resp)
          \<and> code resp = ''SUBSCRIPTION_ACCESS_DENIED'')
      \<longleftrightarrow> reaches_check req
          \<and> (\<exists>u c sub. user req = Some (Authenticated u) \<and> church u = Some c
                \<and> subs c = Some sub \<and> status sub \<notin> set STATUS_CHOICES
                \<and> today \<le> current_period_end sub)"
    (is "?L \<longleftrightarrow> ?R")
  proof
    assume ?L
    then obtain resp where r: "process_view subs today req = Inr (Some resp)"
      and c: "code resp = ''SUBSCRIPTION_ACCESS_DENIED''" by blast
    from r obtain u c' sub where g: "reaches_check req" and u: "user req = Some (Authenticated u)"
      and ch: "church u = Some c'" and s: "subs c' = Some sub"
      and cs: "check_subscription today sub = Some resp"
      unfolding process_view_denial by blast
    from cs c have "status sub \<notin> set STATUS_CHOICES \<and> today \<le> current_period_end sub"
      using check_subscription_default [of today sub resp] by blast
    with g u ch s show ?R by blast
  next
    assume ?R
    then obtain u c' sub where g: "reaches_check req" and u: "user req = Some (Authenticated u)"
      and ch: "church u = Some c'" and s: "subs c' = Some sub"
      and st: "status sub \<notin> set STATUS_CHOICES" and pe: "today \<le> current_period_end sub"
      by blast
    let ?resp = "\<lparr>error = ''Subscription access denied'',
               message = ''Unable to verify subscription status.'',
               code = ''SUBSCRIPTION_ACCESS_DENIED'',
               status_code = 402\<rparr>"
    from st pe have "check_subscription today sub = Some ?resp"
      using check_subscription_default [of today sub ?resp] by simp
    with g u ch s have "process_view subs today req = Inr (Some ?resp)"
      unfolding process_view_denial by blast
    then show ?L by (intro exI [of _ ?resp]) simp
  qed
  have "(\<forall>c sub. subs c = Some sub \<longrightarrow> status sub \<in> set STATUS_CHOICES) \<longrightarrow> \<not> ?R"
    by blast
  with eq show ?thesis by blast
qed

theorem default_deny_unreachable_witness:
  "\<not> (\<exists>resp. process_view (example_subs ''active'' 50) 100 example_post = Inr (Some resp)
          \<and> code resp = ''SUBSCRIPTION_ACCESS_DENIED'')
   \<and> (\<exists>resp. process_view (example_subs ''suspended'' 150) 100 example_post = Inr (Some resp)
          \<and> code resp = ''SUBSCRIPTION_ACCESS_DENIED'')"
proof -
  have wf: "\<forall>c sub. example_subs ''active'' 50 c = Some sub \<longrightarrow> status sub \<in> set STATUS_CHOICES"
    by (simp add: example_subs_def STATUS_CHOICES_def)
  have g: "reaches_check example_post"
    by (simp add: reaches_check_def example_post_def startswith_def)
  have r: "\<exists>u c sub. user example_post = Some (Authenticated u) \<and> church u = Some c
      \<and> example_subs ''suspended'' 150 c = Some sub \<and> status sub \<notin> set STATUS_CHOICES
      \<and> 100 \<le> current_period_end sub"
    by (simp add: example_post_def example_user_def example_subs_def STATUS_CHOICES_def)
  show ?thesis
    using default_deny_unreachable [of "example_subs ''active'' 50" 100 example_post]
      default_deny_unreachable [of "example_subs ''suspended'' 150" 100 example_post]
      wf g r by blast
qed

section \<open>Properties of user deletion\<close>

text \<open>
  C8. Deleting a user whose role is \<^verbatim>\<open>superintendent\<close>: when the table has no other
  row (another key) of the same church with role \<^verbatim>\<open>superintendent\<close> and
  \<^verbatim>\<open>is_active=True\<close>, \<^verbatim>\<open>delete\<close> raises \<^verbatim>\<open>ValidationError\<close> and the table is
  unchanged; when it has one, the user's row is deleted.
\<close>

theorem delete_last_superintendent:
  assumes "role self = ''superintendent''"
  shows "delete self users =
    (if \<exists>u \<in> set users. pk u \<noteq> pk self \<and> church u = church self
          \<and> role u = ''superintendent'' \<and> is_active u
     then (None, filter (\<lambda>u. pk u \<noteq> pk self) users)
     else (Some (ValidationError ''Cannot delete the last superintendent.''), users))"
proof -
  have "other_superintendents self users \<noteq> [] \<longleftrightarrow>
      (\<exists>u \<in> set users. pk u \<noteq> pk self \<and> church u = church self
          \<and> role u = ''superintendent'' \<and> is_active u)"
    by (auto simp: other_superintendents_def filter_empty_conv)
  then show ?thesis using assms by (simp add: delete_def super_delete_def)
qed

theorem delete_last_superintendent_witness:
  "delete (example_super 1 1 True) [example_super 1 1 True, example_super 2 1 False, example_super 3 2 True]
     = (Some (ValidationError ''Cannot delete the last superintendent.''),
        [example_super 1 1 True, example_super 2 1 False, example_super 3 2 True])
   \<and> delete (example_super 1 1 True) [example_super 1 1 True, example_super 2 1 True]
     = (None, [example_super 2 1 True])"
  using delete_last_superintendent [of "example_super 1 1 True"
      "[example_super 1 1 True, example_super 2 1 False, example_super 3 2 True]"]
    delete_last_superintendent [of "example_super 1 1 True"
      "[example_super 1 1 True, example_super 2 1 True]"]
  by (simp add: example_super_def)

section \<open>Properties of the subscription endpoints\<close>





text \<open>
  Past the last date the end of the period does not exist: verify-payment raises
  \<^verbatim>\<open>OverflowError\<close> and the row is as it was.
\<close>

lemma verify_payment_overflow:
  "verify_payment [1 \<mapsto> example_row] 3652059 example_user [''plan'' \<mapsto> ''monthly'']
     = (Inl OverflowError, [1 \<mapsto> example_row])"
  by (simp add: verify_payment_def objects_get_def date_add_def example_user_def)

text \<open>
  C10. Expected: for a church without a subscription row, the create endpoint creates
  a row for the acting user's church with plan \<^verbatim>\<open>free_trial\<close>, status
  \<^verbatim>\<open>trialing\<close> and both dates today plus 60 days, and answers 201. The code, at such
  a call: the view hands the church's key and the status to
  \<^verbatim>\<open>SubscriptionCreateSerializer\<close>, whose declared fields are \<^verbatim>\<open>plan\<close>,
  \<^verbatim>\<open>trial_end_date\<close> and \<^verbatim>\<open>current_period_end\<close> only, so the row is inserted with
  a null church: the call raises \<^verbatim>\<open>IntegrityError\<close> and the table has no new row.
\<close>

theorem create_subscription_integrity_error:
  "create_subscription Map.empty 100 example_user = (Inl IntegrityError, Map.empty)"
  by (simp add: create_subscription_def objects_get_def example_user_def is_valid_def
      PLAN_CHOICES_def serializer_save_def validated_data_def date_add_def
      SubscriptionCreateSerializer_fields_def objects_create_def)

text \<open>
  The same for every table, date and user: the endpoint leaves the table as it was and
  never answers 201. A church that has a subscription is answered 400.
\<close>

lemma create_subscription_never_creates:
  "snd (create_subscription db today u) = db \<and>
   (\<forall>b. fst (create_subscription db today u) \<noteq> Inr (Response b 201))"
  by (auto simp: create_subscription_def objects_get_def is_valid_def
      PLAN_CHOICES_def serializer_save_def validated_data_def Let_def
      SubscriptionCreateSerializer_fields_def objects_create_def
      split: option.splits sum.splits)

lemma create_subscription_existing:
  assumes "church u = Some c" and "db c = Some sub"
  shows "create_subscription db today u =
    (Inr (Response (ErrorBody ''Subscription already exists for this church'') 400), db)"
  using assms by (simp add: create_subscription_def objects_get_def)

end
